theory Spec2Isabelle
  imports Main "HOL-Library.Sublist" "HOL-Library.List_Lexorder" "HOL-Library.Char_ord"
begin

section \<open>Values exchanged with the service\<close>

text \<open>
  The body that \<open>request.get_json()\<close> hands to a handler is any JSON value; \<open>JNull\<close> is
  Python's \<open>None\<close> (no body). A dict is an association list read with \<open>map_of\<close>.
  JSON numbers are integers here; fractional numbers are left out.
\<close>

datatype json =
    JNull
  | JBool bool
  | JInt int
  | JStr string
  | JArr "json list"
  | JObj "(string \<times> json) list"

text \<open>
  The exceptions the handlers can meet. \<open>UniqueViolation\<close> is
  \<open>psycopg.errors.UniqueViolation\<close>; \<open>DataError\<close>, \<open>ProgrammingError\<close> and
  \<open>OperationalError\<close> stand for every other database or pool failure. All of them are
  subclasses of \<open>Exception\<close>.
\<close>

datatype exn =
    TypeError
  | AttributeError
  | KeyError
  | UnboundLocalError
  | UniqueViolation
  | DataError
  | ProgrammingError
  | OperationalError

text \<open>Modelled from the spec: the persisted schema of the \<open>flags\<close> table (section 3 and
  section 6 of the specification; the table declaration is not part of the source).\<close>

record flag =
  name :: string
  description :: string
  is_enabled :: bool
  created_at :: nat
  updated_at :: nat

text \<open>
  Response bodies. The error texts of the source are Portuguese sentences; each one is a
  constructor here, in the order in which the source has them:
  \<open>AuthRequired\<close> "Authorization header obrigatorio",
  \<open>InvalidKey\<close> "Chave de API invalida",
  \<open>AuthTimeout\<close> "Servico de autenticacao indisponivel (timeout)",
  \<open>AuthUnavailable\<close> "Servico de autenticacao indisponivel",
  \<open>NameRequired\<close> "'name' e obrigatorio",
  \<open>FlagExists n\<close> "Flag 'n' ja existe",
  \<open>InternalError e\<close> "Erro interno do servidor" with \<open>str(e)\<close> as details,
  \<open>NotFound\<close> "Flag nao encontrada",
  \<open>BodyRequired\<close> "Corpo da requisicao obrigatorio",
  \<open>FieldRequired\<close> "Pelo menos um campo ('description', 'is_enabled') e obrigatorio".
\<close>

datatype body =
    StatusOk
  | AuthRequired
  | InvalidKey
  | AuthTimeout
  | AuthUnavailable
  | NameRequired
  | FlagExists json
  | InternalError exn
  | NotFound
  | BodyRequired
  | FieldRequired
  | RowBody "flag option"
  | RowsBody "flag list"
  | NoBody

datatype response = Resp (status: nat) (body: body)

text \<open>A handler either returns a response or lets an exception escape.\<close>

datatype outcome = Return response | Raise exn

section \<open>Python operations on the request body\<close>

text \<open>\<open>not data\<close> is the negation of Python's truth value.\<close>

fun truthy :: "json \<Rightarrow> bool" where
  "truthy JNull = False"
| "truthy (JBool b) = b"
| "truthy (JInt i) = (i \<noteq> 0)"
| "truthy (JStr s) = (s \<noteq> [])"
| "truthy (JArr xs) = (xs \<noteq> [])"
| "truthy (JObj kvs) = (kvs \<noteq> [])"

text \<open>\<open>key in data\<close>: key membership in a dict, element membership in a list, substring
  test in a string, \<open>TypeError\<close> otherwise.\<close>

fun contains :: "string \<Rightarrow> json \<Rightarrow> exn + bool" where
  "contains k (JObj kvs) = Inr (map_of kvs k \<noteq> None)"
| "contains k (JArr xs) = Inr (JStr k \<in> set xs)"
| "contains k (JStr s) = Inr (sublist k s)"
| "contains k _ = Inl TypeError"

text \<open>\<open>data[key]\<close> with a string key.\<close>

fun subscript :: "json \<Rightarrow> string \<Rightarrow> exn + json" where
  "subscript (JObj kvs) k = (case map_of kvs k of None \<Rightarrow> Inl KeyError | Some v \<Rightarrow> Inr v)"
| "subscript _ k = Inl TypeError"

text \<open>\<open>data.get(key, default)\<close>: only a dict has the method.\<close>

fun get_default :: "json \<Rightarrow> string \<Rightarrow> json \<Rightarrow> exn + json" where
  "get_default (JObj kvs) k d = (case map_of kvs k of None \<Rightarrow> Inr d | Some v \<Rightarrow> Inr v)"
| "get_default _ k d = Inl AttributeError"

text \<open>\<open>sep.join(parts)\<close>.\<close>

fun join :: "string \<Rightarrow> string list \<Rightarrow> string" where
  "join sep [] = []"
| "join sep [x] = x"
| "join sep (x # y # zs) = x @ sep @ join sep (y # zs)"

section \<open>The database\<close>

text \<open>The statements the source sends, as it writes them.\<close>

definition insert_sql :: string where
  "insert_sql = ''INSERT INTO flags (name, description, is_enabled, created_at, updated_at) ''
     @ ''VALUES (%s, %s, %s, NOW(), NOW()) RETURNING *''"

definition select_all_sql :: string where
  "select_all_sql = ''SELECT * FROM flags ORDER BY name''"

definition select_one_sql :: string where
  "select_one_sql = ''SELECT * FROM flags WHERE name = %s''"

definition delete_sql :: string where
  "delete_sql = ''DELETE FROM flags WHERE name = %s''"

definition update_sql :: "string list \<Rightarrow> string" where
  "update_sql fs = ''UPDATE flags SET '' @ join '', '' fs
     @ '', updated_at = NOW() WHERE name = %s RETURNING *''"

text \<open>What a cursor holds after a statement: \<open>cur.rowcount\<close> and the rows to fetch.\<close>

record result =
  rowcount :: nat
  rows :: "flag list"

text \<open>Modelled from the spec: the column types of the \<open>flags\<close> table. A parameter bound to
  a text column has to be a string and one bound to the boolean column a boolean; any
  other value makes the statement fail.\<close>

fun as_text :: "json \<Rightarrow> exn + string" where
  "as_text (JStr s) = Inr s"
| "as_text _ = Inl DataError"

fun as_bool :: "json \<Rightarrow> exn + bool" where
  "as_bool (JBool b) = Inr b"
| "as_bool _ = Inl DataError"

text \<open>Modelled from the spec: the unique constraint on \<open>name\<close>, which the source relies on
  when it catches \<open>UniqueViolation\<close>. Both timestamps of the new row are the same
  \<open>NOW()\<close>.\<close>

definition db_insert :: "nat \<Rightarrow> json \<Rightarrow> json \<Rightarrow> json \<Rightarrow> flag list \<Rightarrow> exn + (result \<times> flag list)" where
  "db_insert now n d e tbl =
     (case as_text n of Inl x \<Rightarrow> Inl x | Inr n' \<Rightarrow>
      case as_text d of Inl x \<Rightarrow> Inl x | Inr d' \<Rightarrow>
      case as_bool e of Inl x \<Rightarrow> Inl x | Inr e' \<Rightarrow>
        if n' \<in> name ` set tbl then Inl UniqueViolation
        else let row = \<lparr>name = n', description = d', is_enabled = e',
                        created_at = now, updated_at = now\<rparr>
             in Inr (\<lparr>rowcount = 1, rows = [row]\<rparr>, tbl @ [row]))"

definition db_select_all :: "flag list \<Rightarrow> exn + (result \<times> flag list)" where
  "db_select_all tbl =
     (let found = sort_key name tbl
      in Inr (\<lparr>rowcount = length found, rows = found\<rparr>, tbl))"

definition db_select_one :: "json \<Rightarrow> flag list \<Rightarrow> exn + (result \<times> flag list)" where
  "db_select_one n tbl =
     (case as_text n of Inl x \<Rightarrow> Inl x | Inr n' \<Rightarrow>
        let found = filter (\<lambda>r. name r = n') tbl
        in Inr (\<lparr>rowcount = length found, rows = found\<rparr>, tbl))"

definition db_delete :: "json \<Rightarrow> flag list \<Rightarrow> exn + (result \<times> flag list)" where
  "db_delete n tbl =
     (case as_text n of Inl x \<Rightarrow> Inl x | Inr n' \<Rightarrow>
        Inr (\<lparr>rowcount = length (filter (\<lambda>r. name r = n') tbl), rows = []\<rparr>,
             filter (\<lambda>r. name r \<noteq> n') tbl))"

text \<open>One assignment of the \<open>SET\<close> list with its parameter: the change it makes to a
  row, once the parameter fits the column.\<close>

definition assign :: "string \<Rightarrow> json \<Rightarrow> exn + (flag \<Rightarrow> flag)" where
  "assign field v =
     (if field = ''description = %s'' then
        (case as_text v of Inl x \<Rightarrow> Inl x | Inr d \<Rightarrow> Inr (\<lambda>r. r\<lparr>description := d\<rparr>))
      else if field = ''is_enabled = %s'' then
        (case as_bool v of Inl x \<Rightarrow> Inl x | Inr e \<Rightarrow> Inr (\<lambda>r. r\<lparr>is_enabled := e\<rparr>))
      else Inl ProgrammingError)"

fun assign_all :: "(string \<times> json) list \<Rightarrow> exn + (flag \<Rightarrow> flag)" where
  "assign_all [] = Inr (\<lambda>r. r)"
| "assign_all ((f, v) # fvs) =
     (case assign f v of Inl x \<Rightarrow> Inl x | Inr g \<Rightarrow>
      case assign_all fvs of Inl x \<Rightarrow> Inl x | Inr h \<Rightarrow> Inr (\<lambda>r. h (g r)))"

text \<open>\<open>UPDATE flags SET ..., updated_at = NOW() WHERE name = %s RETURNING *\<close>: the last
  parameter is the name, the ones before it belong to the assignments, in order.\<close>

definition db_update :: "nat \<Rightarrow> string list \<Rightarrow> json list \<Rightarrow> flag list \<Rightarrow> exn + (result \<times> flag list)" where
  "db_update now fs params tbl =
     (if params = [] \<or> length params \<noteq> Suc (length fs) then Inl ProgrammingError
      else case as_text (last params) of Inl x \<Rightarrow> Inl x | Inr n' \<Rightarrow>
           case assign_all (zip fs (butlast params)) of Inl x \<Rightarrow> Inl x | Inr change \<Rightarrow>
             let tbl' = map (\<lambda>r. if name r = n' then (change r)\<lparr>updated_at := now\<rparr> else r) tbl;
                 hit = filter (\<lambda>r. name r = n') tbl'
             in Inr (\<lparr>rowcount = length hit, rows = hit\<rparr>, tbl'))"

text \<open>The database reads a statement by its text: these are the statements this program
  can send; anything else is a syntax error.\<close>

definition run_sql :: "nat \<Rightarrow> string \<Rightarrow> json list \<Rightarrow> flag list \<Rightarrow> exn + (result \<times> flag list)" where
  "run_sql now sql params tbl =
     (if sql = insert_sql then
        (case params of [n, d, e] \<Rightarrow> db_insert now n d e tbl | _ \<Rightarrow> Inl ProgrammingError)
      else if sql = select_all_sql then
        (case params of [] \<Rightarrow> db_select_all tbl | _ \<Rightarrow> Inl ProgrammingError)
      else if sql = select_one_sql then
        (case params of [n] \<Rightarrow> db_select_one n tbl | _ \<Rightarrow> Inl ProgrammingError)
      else if sql = delete_sql then
        (case params of [n] \<Rightarrow> db_delete n tbl | _ \<Rightarrow> Inl ProgrammingError)
      else if sql = update_sql [''description = %s''] then
        db_update now [''description = %s''] params tbl
      else if sql = update_sql [''is_enabled = %s''] then
        db_update now [''is_enabled = %s''] params tbl
      else if sql = update_sql [''description = %s'', ''is_enabled = %s''] then
        db_update now [''description = %s'', ''is_enabled = %s''] params tbl
      else Inl ProgrammingError)"

section \<open>The process around a request\<close>

text \<open>
  What a request finds and leaves behind: the committed rows of the table, the rows as
  the open transaction sees them (\<open>None\<close> when no transaction is open), the number of
  connections taken from the pool and not given back, and the calls made to the
  authentication service and to the database, in order.
\<close>

datatype event =
    AuthCall string string nat
  | GetConn
  | Cursor
  | Execute string "json list"
  | Commit
  | Rollback
  | CurClose
  | PutConn

record world =
  table :: "flag list"
  pending :: "flag list option"
  held :: nat
  calls :: "event list"

text \<open>What the authentication service does with a call: it answers with a status, the
  call runs into its timeout (\<open>requests.exceptions.Timeout\<close>), or it fails in another
  way (any other \<open>requests.exceptions.RequestException\<close>).\<close>

datatype auth_reply = Status nat | Timeout | TransportFailure

text \<open>The first call to the pool or the database that fails during a request, if any.\<close>

datatype fault = NoFault | FailGetconn | FailCursor | FailExecute | FailCommit

record env =
  auth_service_url :: string
  auth_header :: "string option"
  auth_reply :: auth_reply
  fault :: fault
  now :: nat

text \<open>A local variable of a handler: not assigned yet, \<open>None\<close>, or an object.\<close>

datatype pyvar = Unbound | PyNone | Obj

record locals =
  conn :: pyvar
  cur :: pyvar

definition view :: "world \<Rightarrow> flag list" where
  "view w = (case pending w of None \<Rightarrow> table w | Some t \<Rightarrow> t)"

definition log :: "event \<Rightarrow> world \<Rightarrow> world" where
  "log ev w = w\<lparr>calls := calls w @ [ev]\<rparr>"

text \<open>\<open>pool.getconn()\<close> and \<open>conn.cursor(...)\<close>.\<close>

definition getconn :: "fault \<Rightarrow> world \<Rightarrow> exn + world" where
  "getconn flt w =
     (if flt = FailGetconn then Inl OperationalError
      else Inr (log GetConn (w\<lparr>held := held w + 1\<rparr>)))"

definition cursor :: "fault \<Rightarrow> world \<Rightarrow> exn + world" where
  "cursor flt w = (if flt = FailCursor then Inl OperationalError else Inr (log Cursor w))"

text \<open>\<open>cur.execute(sql, params)\<close>: the statement runs on the rows the transaction sees and
  its effect stays pending until a commit.\<close>

definition cur_execute :: "env \<Rightarrow> string \<Rightarrow> json list \<Rightarrow> world \<Rightarrow> (exn + result) \<times> world" where
  "cur_execute e sql params w =
     (let w1 = log (Execute sql params) w in
      if fault e = FailExecute then (Inl OperationalError, w1)
      else case run_sql (now e) sql params (view w) of
             Inl x \<Rightarrow> (Inl x, w1)
           | Inr (res, tbl') \<Rightarrow> (Inr res, w1\<lparr>pending := Some tbl'\<rparr>))"

definition fetchone :: "result \<Rightarrow> flag option" where
  "fetchone res = (case rows res of [] \<Rightarrow> None | r # _ \<Rightarrow> Some r)"

definition fetchall :: "result \<Rightarrow> flag list" where
  "fetchall res = rows res"

definition commit :: "fault \<Rightarrow> world \<Rightarrow> exn + world" where
  "commit flt w =
     (if flt = FailCommit then Inl OperationalError
      else Inr (log Commit (w\<lparr>table := view w, pending := None\<rparr>)))"

definition rollback :: "world \<Rightarrow> world" where
  "rollback w = log Rollback (w\<lparr>pending := None\<rparr>)"

definition close :: "world \<Rightarrow> world" where
  "close w = log CurClose w"

text \<open>\<open>pool.putconn(conn)\<close>: the pool takes the connection back and discards what an open
  transaction had not committed.\<close>

definition putconn :: "world \<Rightarrow> world" where
  "putconn w = log PutConn (w\<lparr>held := held w - 1, pending := None\<rparr>)"

section \<open>The control flow shared by the handlers\<close>

text \<open>The first two statements of every \<open>try\<close> block: \<open>conn = pool.getconn()\<close> and
  \<open>cur = conn.cursor(...)\<close>. A variable is assigned only when its call returns.\<close>

definition acquire :: "locals \<Rightarrow> fault \<Rightarrow> world \<Rightarrow> (exn \<times> locals \<times> world) + (locals \<times> world)" where
  "acquire loc flt w =
     (case getconn flt w of
        Inl x \<Rightarrow> Inl (x, loc, w)
      | Inr w1 \<Rightarrow>
         (let loc1 = loc\<lparr>conn := Obj\<rparr> in
          case cursor flt w1 of
            Inl x \<Rightarrow> Inl (x, loc1, w1)
          | Inr w2 \<Rightarrow> Inr (loc1\<lparr>cur := Obj\<rparr>, w2)))"

text \<open>\<open>conn.rollback()\<close> and \<open>if conn: conn.rollback()\<close>, reading the local variable.\<close>

definition conn_rollback :: "pyvar \<Rightarrow> world \<Rightarrow> exn + world" where
  "conn_rollback c w =
     (case c of Unbound \<Rightarrow> Inl UnboundLocalError
              | PyNone \<Rightarrow> Inl AttributeError
              | Obj \<Rightarrow> Inr (rollback w))"

definition if_conn_rollback :: "pyvar \<Rightarrow> world \<Rightarrow> exn + world" where
  "if_conn_rollback c w =
     (case c of Unbound \<Rightarrow> Inl UnboundLocalError
              | PyNone \<Rightarrow> Inr w
              | Obj \<Rightarrow> Inr (rollback w))"

text \<open>The \<open>finally\<close> block of every handler:
  \<^verbatim>\<open>if cur: cur.close()\<close> and then \<^verbatim>\<open>if conn: pool.putconn(conn)\<close>.
  Reading a variable that was never assigned raises and ends the block.\<close>

definition finally_release :: "locals \<Rightarrow> world \<Rightarrow> exn option \<times> world" where
  "finally_release loc w =
     (case cur loc of
        Unbound \<Rightarrow> (Some UnboundLocalError, w)
      | c \<Rightarrow>
         (let w1 = (if c = Obj then close w else w) in
          case conn loc of
            Unbound \<Rightarrow> (Some UnboundLocalError, w1)
          | PyNone \<Rightarrow> (None, w1)
          | Obj \<Rightarrow> (None, putconn w1)))"

text \<open>\<open>try: ... except ...: ... finally: ...\<close>. An exception of the \<open>try\<close> block goes to the
  handler; the \<open>finally\<close> block runs in every case, and an exception it raises replaces
  the pending return value or exception.\<close>

definition try_finally ::
  "outcome \<times> locals \<times> world \<Rightarrow> (exn \<Rightarrow> locals \<Rightarrow> world \<Rightarrow> outcome \<times> world) \<Rightarrow> outcome \<times> world" where
  "try_finally tried handler =
     (case tried of (out, loc, w) \<Rightarrow>
        (case (case out of Return r \<Rightarrow> (Return r, w) | Raise x \<Rightarrow> handler x loc w) of
           (out', w') \<Rightarrow>
             (case finally_release loc w' of
                (Some x, w'') \<Rightarrow> (Raise x, w'')
              | (None, w'') \<Rightarrow> (out', w''))))"

definition unbound :: locals where
  "unbound = \<lparr>conn = Unbound, cur = Unbound\<rparr>"

section \<open>The authentication gate\<close>

definition require_auth :: "env \<Rightarrow> (world \<Rightarrow> outcome \<times> world) \<Rightarrow> world \<Rightarrow> outcome \<times> world" where
  "require_auth e f w =
     (case auth_header e of
        None \<Rightarrow> (Return (Resp 401 AuthRequired), w)
      | Some h \<Rightarrow>
         if h = [] then (Return (Resp 401 AuthRequired), w)
         else
           (let w1 = log (AuthCall (auth_service_url e @ ''/validate'') h 3) w in
            case auth_reply e of
              Status s \<Rightarrow> if s \<noteq> 200 then (Return (Resp 401 InvalidKey), w1) else f w1
            | Timeout \<Rightarrow> (Return (Resp 504 AuthTimeout), w1)
            | TransportFailure \<Rightarrow> (Return (Resp 503 AuthUnavailable), w1)))"

section \<open>The handlers\<close>

definition health :: outcome where
  "health = Return (Resp 200 StatusOk)"

subsection \<open>create_flag\<close>

definition create_try :: "env \<Rightarrow> json \<Rightarrow> json \<Rightarrow> json \<Rightarrow> world \<Rightarrow> outcome \<times> locals \<times> world" where
  "create_try e n d en w =
     (case acquire \<lparr>conn = PyNone, cur = PyNone\<rparr> (fault e) w of
        Inl (x, loc, w1) \<Rightarrow> (Raise x, loc, w1)
      | Inr (loc, w1) \<Rightarrow>
         (case cur_execute e insert_sql [n, d, en] w1 of
            (Inl x, w2) \<Rightarrow> (Raise x, loc, w2)
          | (Inr res, w2) \<Rightarrow>
             (let new_flag = fetchone res in
              case commit (fault e) w2 of
                Inl x \<Rightarrow> (Raise x, loc, w2)
              | Inr w3 \<Rightarrow> (Return (Resp 201 (RowBody new_flag)), loc, w3))))"

definition create_except :: "json \<Rightarrow> exn \<Rightarrow> locals \<Rightarrow> world \<Rightarrow> outcome \<times> world" where
  "create_except n x loc w =
     (if x = UniqueViolation then
        (case conn_rollback (conn loc) w of
           Inl y \<Rightarrow> (Raise y, w)
         | Inr w1 \<Rightarrow> (Return (Resp 409 (FlagExists n)), w1))
      else
        (case if_conn_rollback (conn loc) w of
           Inl y \<Rightarrow> (Raise y, w)
         | Inr w1 \<Rightarrow> (Return (Resp 500 (InternalError x)), w1)))"

definition create_flag :: "env \<Rightarrow> json \<Rightarrow> world \<Rightarrow> outcome \<times> world" where
  "create_flag e data w =
     (if \<not> truthy data then (Return (Resp 400 NameRequired), w)
      else case contains ''name'' data of
        Inl x \<Rightarrow> (Raise x, w)
      | Inr False \<Rightarrow> (Return (Resp 400 NameRequired), w)
      | Inr True \<Rightarrow>
         (case subscript data ''name'' of Inl x \<Rightarrow> (Raise x, w) | Inr n \<Rightarrow>
          case get_default data ''description'' (JStr []) of Inl x \<Rightarrow> (Raise x, w) | Inr d \<Rightarrow>
          case get_default data ''is_enabled'' (JBool False) of Inl x \<Rightarrow> (Raise x, w) | Inr en \<Rightarrow>
            try_finally (create_try e n d en w) (create_except n)))"

subsection \<open>get_flags and get_flag\<close>

definition read_except :: "exn \<Rightarrow> locals \<Rightarrow> world \<Rightarrow> outcome \<times> world" where
  "read_except x loc w = (Return (Resp 500 (InternalError x)), w)"

definition get_flags_try :: "env \<Rightarrow> world \<Rightarrow> outcome \<times> locals \<times> world" where
  "get_flags_try e w =
     (case acquire unbound (fault e) w of
        Inl (x, loc, w1) \<Rightarrow> (Raise x, loc, w1)
      | Inr (loc, w1) \<Rightarrow>
         (case cur_execute e select_all_sql [] w1 of
            (Inl x, w2) \<Rightarrow> (Raise x, loc, w2)
          | (Inr res, w2) \<Rightarrow> (Return (Resp 200 (RowsBody (fetchall res))), loc, w2)))"

definition get_flags :: "env \<Rightarrow> world \<Rightarrow> outcome \<times> world" where
  "get_flags e w = try_finally (get_flags_try e w) read_except"

definition get_flag_try :: "env \<Rightarrow> string \<Rightarrow> world \<Rightarrow> outcome \<times> locals \<times> world" where
  "get_flag_try e n w =
     (case acquire unbound (fault e) w of
        Inl (x, loc, w1) \<Rightarrow> (Raise x, loc, w1)
      | Inr (loc, w1) \<Rightarrow>
         (case cur_execute e select_one_sql [JStr n] w1 of
            (Inl x, w2) \<Rightarrow> (Raise x, loc, w2)
          | (Inr res, w2) \<Rightarrow>
             (case fetchone res of
                None \<Rightarrow> (Return (Resp 404 NotFound), loc, w2)
              | Some r \<Rightarrow> (Return (Resp 200 (RowBody (Some r))), loc, w2))))"

definition get_flag :: "env \<Rightarrow> string \<Rightarrow> world \<Rightarrow> outcome \<times> world" where
  "get_flag e n w = try_finally (get_flag_try e n w) read_except"

subsection \<open>update_flag\<close>

text \<open>One of the two \<open>if key in data:\<close> blocks, which append to \<open>fields\<close> and \<open>values\<close>.\<close>

definition collect :: "string \<Rightarrow> string \<Rightarrow> json \<Rightarrow> string list \<times> json list \<Rightarrow> exn + (string list \<times> json list)" where
  "collect key field data fv =
     (case contains key data of
        Inl x \<Rightarrow> Inl x
      | Inr False \<Rightarrow> Inr fv
      | Inr True \<Rightarrow>
         (case subscript data key of
            Inl x \<Rightarrow> Inl x
          | Inr v \<Rightarrow> Inr (fst fv @ [field], snd fv @ [v])))"

definition write_except :: "exn \<Rightarrow> locals \<Rightarrow> world \<Rightarrow> outcome \<times> world" where
  "write_except x loc w =
     (case conn_rollback (conn loc) w of
        Inl y \<Rightarrow> (Raise y, w)
      | Inr w1 \<Rightarrow> (Return (Resp 500 (InternalError x)), w1))"

definition update_try :: "env \<Rightarrow> string \<Rightarrow> json list \<Rightarrow> world \<Rightarrow> outcome \<times> locals \<times> world" where
  "update_try e query vals w =
     (case acquire unbound (fault e) w of
        Inl (x, loc, w1) \<Rightarrow> (Raise x, loc, w1)
      | Inr (loc, w1) \<Rightarrow>
         (case cur_execute e query vals w1 of
            (Inl x, w2) \<Rightarrow> (Raise x, loc, w2)
          | (Inr res, w2) \<Rightarrow>
             if rowcount res = 0 then (Return (Resp 404 NotFound), loc, w2)
             else
               (let updated_flag = fetchone res in
                case commit (fault e) w2 of
                  Inl x \<Rightarrow> (Raise x, loc, w2)
                | Inr w3 \<Rightarrow> (Return (Resp 200 (RowBody updated_flag)), loc, w3))))"

definition update_flag :: "env \<Rightarrow> string \<Rightarrow> json \<Rightarrow> world \<Rightarrow> outcome \<times> world" where
  "update_flag e n data w =
     (if \<not> truthy data then (Return (Resp 400 BodyRequired), w)
      else case collect ''description'' ''description = %s'' data ([], []) of
        Inl x \<Rightarrow> (Raise x, w)
      | Inr fv1 \<Rightarrow>
         (case collect ''is_enabled'' ''is_enabled = %s'' data fv1 of
            Inl x \<Rightarrow> (Raise x, w)
          | Inr (fs, vals) \<Rightarrow>
             if fs = [] then (Return (Resp 400 FieldRequired), w)
             else try_finally (update_try e (update_sql fs) (vals @ [JStr n]) w) write_except))"

subsection \<open>delete_flag\<close>

definition delete_try :: "env \<Rightarrow> string \<Rightarrow> world \<Rightarrow> outcome \<times> locals \<times> world" where
  "delete_try e n w =
     (case acquire unbound (fault e) w of
        Inl (x, loc, w1) \<Rightarrow> (Raise x, loc, w1)
      | Inr (loc, w1) \<Rightarrow>
         (case cur_execute e delete_sql [JStr n] w1 of
            (Inl x, w2) \<Rightarrow> (Raise x, loc, w2)
          | (Inr res, w2) \<Rightarrow>
             if rowcount res = 0 then (Return (Resp 404 NotFound), loc, w2)
             else
               (case commit (fault e) w2 of
                  Inl x \<Rightarrow> (Raise x, loc, w2)
                | Inr w3 \<Rightarrow> (Return (Resp 204 NoBody), loc, w3))))"

definition delete_flag :: "env \<Rightarrow> string \<Rightarrow> world \<Rightarrow> outcome \<times> world" where
  "delete_flag e n w = try_finally (delete_try e n w) write_except"

subsection \<open>The protected routes\<close>

definition post_flags :: "env \<Rightarrow> json \<Rightarrow> world \<Rightarrow> outcome \<times> world" where
  "post_flags e data = require_auth e (create_flag e data)"

definition put_flag :: "env \<Rightarrow> string \<Rightarrow> json \<Rightarrow> world \<Rightarrow> outcome \<times> world" where
  "put_flag e n data = require_auth e (update_flag e n data)"

definition delete_route :: "env \<Rightarrow> string \<Rightarrow> world \<Rightarrow> outcome \<times> world" where
  "delete_route e n = require_auth e (delete_flag e n)"

section \<open>Well-typed request fields and example requests\<close>

text \<open>A field of the body that is either left out or carries a value of the column's
  type.\<close>

fun optional_text :: "json option \<Rightarrow> bool" where
  "optional_text None = True"
| "optional_text (Some (JStr s)) = True"
| "optional_text (Some _) = False"

fun optional_bool :: "json option \<Rightarrow> bool" where
  "optional_bool None = True"
| "optional_bool (Some (JBool b)) = True"
| "optional_bool (Some _) = False"

text \<open>The scenario of the specification: an empty table, a caller with a valid key, and
  the table once \<open>dark_mode\<close> has been created.\<close>

definition world0 :: world where
  "world0 = \<lparr>table = [], pending = None, held = 0, calls = []\<rparr>"

definition env0 :: env where
  "env0 = \<lparr>auth_service_url = ''http://auth'', auth_header = Some ''key'',
            auth_reply = Status 200, fault = NoFault, now = 7\<rparr>"

definition dark_mode :: flag where
  "dark_mode = \<lparr>name = ''dark_mode'', description = [], is_enabled = False,
                 created_at = 7, updated_at = 7\<rparr>"

definition world1 :: world where
  "world1 = \<lparr>table = [dark_mode], pending = None, held = 0, calls = []\<rparr>"

section \<open>Auxiliary facts\<close>

lemma run_sql_insert: "run_sql t insert_sql [n, d, e] tbl = db_insert t n d e tbl"
  by (simp add: run_sql_def)

lemma run_sql_select_all: "run_sql t select_all_sql [] tbl = db_select_all tbl"
  by (simp add: run_sql_def select_all_sql_def insert_sql_def)

lemma run_sql_select_one: "run_sql t select_one_sql [n] tbl = db_select_one n tbl"
  by (simp add: run_sql_def select_all_sql_def insert_sql_def select_one_sql_def)

lemma run_sql_delete: "run_sql t delete_sql [n] tbl = db_delete n tbl"
  by (simp add: run_sql_def select_all_sql_def insert_sql_def select_one_sql_def delete_sql_def)

lemma run_sql_update_d:
  "run_sql t (update_sql [''description = %s'']) ps tbl = db_update t [''description = %s''] ps tbl"
  by (simp add: run_sql_def select_all_sql_def insert_sql_def select_one_sql_def delete_sql_def
        update_sql_def)

lemma run_sql_update_e:
  "run_sql t (update_sql [''is_enabled = %s'']) ps tbl = db_update t [''is_enabled = %s''] ps tbl"
  by (simp add: run_sql_def select_all_sql_def insert_sql_def select_one_sql_def delete_sql_def
        update_sql_def)

lemma run_sql_update_de:
  "run_sql t (update_sql [''description = %s'', ''is_enabled = %s'']) ps tbl
     = db_update t [''description = %s'', ''is_enabled = %s''] ps tbl"
  by (simp add: run_sql_def select_all_sql_def insert_sql_def select_one_sql_def delete_sql_def
        update_sql_def)

lemmas run_sql_simps = run_sql_insert run_sql_select_all run_sql_select_one run_sql_delete
  run_sql_update_d run_sql_update_e run_sql_update_de

lemmas flow = try_finally_def acquire_def getconn_def cursor_def cur_execute_def
  fetchone_def fetchall_def commit_def rollback_def close_def putconn_def
  conn_rollback_def if_conn_rollback_def finally_release_def unbound_def
  log_def

lemma view_update [simp]:
  "view (w\<lparr>calls := c\<rparr>) = view w"
  "view (w\<lparr>held := h\<rparr>) = view w"
  "view (w\<lparr>pending := Some t\<rparr>) = t"
  "view (w\<lparr>pending := None\<rparr>) = table w"
  by (simp_all add: view_def split: option.splits)

lemma optional_textE: "optional_text v \<Longrightarrow> v = None \<or> (\<exists>s. v = Some (JStr s))"
  by (cases v rule: optional_text.cases) auto

lemma optional_boolE: "optional_bool v \<Longrightarrow> v = None \<or> (\<exists>b. v = Some (JBool b))"
  by (cases v rule: optional_bool.cases) auto

lemma unmatched_map:
  "n \<notin> name ` set tbl \<Longrightarrow> map (\<lambda>r. if name r = n then g r else r) tbl = tbl"
  by (intro map_idI) auto

lemma unmatched_filter: "n \<notin> name ` set tbl \<Longrightarrow> filter (\<lambda>r. name r = n) tbl = []"
  by (auto simp: filter_empty_conv)

lemma collect_dict:
  "collect k f (JObj kvs) fv =
     (case map_of kvs k of None \<Rightarrow> Inr fv | Some v \<Rightarrow> Inr (fst fv @ [f], snd fv @ [v]))"
  by (simp add: collect_def split: option.splits)

lemma map_of_filter_keys:
  "map_of (filter (\<lambda>kv. P (fst kv)) kvs) k = (if P k then map_of kvs k else None)"
  by (induction kvs) auto

lemma filter_keys_nonempty:
  assumes "map_of kvs k \<noteq> None" and "P k"
  shows "filter (\<lambda>kv. P (fst kv)) kvs \<noteq> []"
proof
  assume "filter (\<lambda>kv. P (fst kv)) kvs = []"
  then have "map_of (filter (\<lambda>kv. P (fst kv)) kvs) k = None" by simp
  with assms show False by (simp add: map_of_filter_keys)
qed

subsection \<open>What delete and update do when nothing fails\<close>

lemma delete_flag_absent:
  assumes "fault e = NoFault" and "n \<notin> name ` set (view w)"
  shows "delete_flag e n w =
           (Return (Resp 404 NotFound),
            w\<lparr>pending := None,
               calls := calls w @ [GetConn, Cursor, Execute delete_sql [JStr n], CurClose, PutConn]\<rparr>)"
  using assms(1) unmatched_filter [OF assms(2)]
  by (simp add: delete_flag_def delete_try_def write_except_def run_sql_delete db_delete_def
        flow Let_def)

lemma delete_flag_present:
  assumes "fault e = NoFault" and "n \<in> name ` set (view w)"
  shows "delete_flag e n w =
           (Return (Resp 204 NoBody),
            w\<lparr>table := filter (\<lambda>r. name r \<noteq> n) (view w), pending := None,
               calls := calls w @ [GetConn, Cursor, Execute delete_sql [JStr n],
                                   Commit, CurClose, PutConn]\<rparr>)"
proof -
  have "filter (\<lambda>r. name r = n) (view w) \<noteq> []"
    using assms(2) by (auto simp: filter_empty_conv)
  then show ?thesis
    using assms(1)
    by (simp add: delete_flag_def delete_try_def write_except_def run_sql_delete db_delete_def
          flow Let_def)
qed

lemma update_flag_absent:
  assumes "fault e = NoFault" and "n \<notin> name ` set (view w)"
    and "optional_text (map_of kvs ''description'')" and "optional_bool (map_of kvs ''is_enabled'')"
    and "map_of kvs ''description'' \<noteq> None \<or> map_of kvs ''is_enabled'' \<noteq> None"
  shows "fst (update_flag e n (JObj kvs) w) = Return (Resp 404 NotFound)
       \<and> table (snd (update_flag e n (JObj kvs) w)) = table w
       \<and> Rollback \<notin> set (drop (length (calls w)) (calls (snd (update_flag e n (JObj kvs) w))))"
proof -
  from assms(5) have ne: "kvs \<noteq> []" by auto
  show ?thesis
    using assms(1,5) ne optional_textE [OF assms(3)] optional_boolE [OF assms(4)]
      unmatched_filter [OF assms(2)] unmatched_map [OF assms(2)]
    by (auto simp: update_flag_def update_try_def collect_def write_except_def run_sql_simps
          db_update_def assign_def flow Let_def)
qed

lemma update_ok_dict:
  assumes "update_flag e n data w = (Return (Resp 200 b), w')"
  shows "\<exists>kvs. data = JObj kvs"
  using assms
  by (cases data) (auto simp: update_flag_def collect_def split: if_splits sum.splits bool.splits)

lemma update_flag_table:
  assumes "update_flag e n (JObj kvs) w = (Return (Resp 200 b), w')"
  shows "optional_text (map_of kvs ''description'') \<and> optional_bool (map_of kvs ''is_enabled'')
       \<and> table w' = map (\<lambda>r. if name r = n
                 then r\<lparr>description := (case map_of kvs ''description'' of
                                           Some (JStr d) \<Rightarrow> d | _ \<Rightarrow> description r),
                        is_enabled := (case map_of kvs ''is_enabled'' of
                                          Some (JBool v) \<Rightarrow> v | _ \<Rightarrow> is_enabled r),
                        updated_at := now e\<rparr>
                 else r) (view w)"
proof (cases "map_of kvs ''description''"; cases "map_of kvs ''is_enabled''")
  assume "map_of kvs ''description'' = None" "map_of kvs ''is_enabled'' = None"
  then show ?thesis using assms
    by (simp add: update_flag_def collect_dict split: if_splits)
next
  fix v assume "map_of kvs ''description'' = None" "map_of kvs ''is_enabled'' = Some v"
  then show ?thesis using assms
    by (cases v)
       (auto simp: update_flag_def collect_dict update_try_def write_except_def run_sql_simps
          db_update_def assign_def flow Let_def split: if_splits)
next
  fix v assume "map_of kvs ''description'' = Some v" "map_of kvs ''is_enabled'' = None"
  then show ?thesis using assms
    by (cases v)
       (auto simp: update_flag_def collect_dict update_try_def write_except_def run_sql_simps
          db_update_def assign_def flow Let_def split: if_splits)
next
  fix v v' assume "map_of kvs ''description'' = Some v" "map_of kvs ''is_enabled'' = Some v'"
  then show ?thesis using assms
    by (cases v; cases v')
       (auto simp: update_flag_def collect_dict update_try_def write_except_def run_sql_simps
          db_update_def assign_def flow Let_def split: if_splits)
qed

lemma update_flag_filter:
  assumes "map_of kvs ''description'' \<noteq> None \<or> map_of kvs ''is_enabled'' \<noteq> None"
  shows "update_flag e n (JObj kvs) w =
         update_flag e n
           (JObj (filter (\<lambda>kv. fst kv = ''description'' \<or> fst kv = ''is_enabled'') kvs)) w"
proof -
  let ?P = "\<lambda>k. k = ''description'' \<or> k = ''is_enabled''"
  let ?kvs' = "filter (\<lambda>kv. ?P (fst kv)) kvs"
  from assms have ne: "truthy (JObj kvs)" by auto
  from assms have ne': "truthy (JObj ?kvs')"
    using filter_keys_nonempty [of kvs "''description''" ?P]
      filter_keys_nonempty [of kvs "''is_enabled''" ?P] by auto
  have c1: "collect ''description'' f (JObj ?kvs') fv = collect ''description'' f (JObj kvs) fv"
    for f fv
    by (simp add: collect_dict map_of_filter_keys [of ?P])
  have c2: "collect ''is_enabled'' f (JObj ?kvs') fv = collect ''is_enabled'' f (JObj kvs) fv"
    for f fv
    by (simp add: collect_dict map_of_filter_keys [of ?P])
  show ?thesis
    unfolding update_flag_def c1 c2 using ne ne' by simp
qed

lemma update_flag_runs:
  assumes "map_of kvs ''description'' \<noteq> None \<or> map_of kvs ''is_enabled'' \<noteq> None"
  shows "\<exists>fs vals.
           update_flag e n (JObj kvs) w
             = try_finally (update_try e (update_sql fs) (vals @ [JStr n]) w) write_except
         \<and> (fs = [''description = %s''] \<or> fs = [''is_enabled = %s'']
              \<or> fs = [''description = %s'', ''is_enabled = %s''])"
proof -
  from assms have ne: "kvs \<noteq> []" by auto
  show ?thesis
  proof (cases "map_of kvs ''description''")
    case None
    with assms obtain v where v: "map_of kvs ''is_enabled'' = Some v" by auto
    show ?thesis
      by (rule exI [of _ "[''is_enabled = %s'']"], rule exI [of _ "[v]"])
         (simp add: update_flag_def collect_dict None v ne)
  next
    case (Some d)
    show ?thesis
    proof (cases "map_of kvs ''is_enabled''")
      case None
      show ?thesis
        by (rule exI [of _ "[''description = %s'']"], rule exI [of _ "[d]"])
           (simp add: update_flag_def collect_dict None Some ne)
    next
      case (Some v)
      show ?thesis
        by (rule exI [of _ "[''description = %s'', ''is_enabled = %s'']"],
            rule exI [of _ "[d, v]"])
           (simp add: update_flag_def collect_dict \<open>map_of kvs ''description'' = Some d\<close> Some ne)
    qed
  qed
qed

lemma update_try_calls:
  "\<exists>new. calls (snd (try_finally (update_try e q ps w) write_except)) = calls w @ new
        \<and> (\<forall>sql ps'. Execute sql ps' \<in> set new \<longrightarrow> sql = q)"
  by (cases "fault e")
     (auto simp: update_try_def write_except_def flow Let_def
           split: sum.splits prod.splits if_splits)

lemma try_not_400:
  "fst (try_finally (update_try e q ps w) write_except) \<noteq> Return (Resp 400 x)"
  by (cases "fault e")
     (auto simp: update_try_def write_except_def flow Let_def
           split: sum.splits prod.splits if_splits)

subsection \<open>What the handlers do when a call fails\<close>

lemma create_flag_releases: "held (snd (create_flag e data w)) = held w"
  by (cases "fault e")
     (auto simp: create_flag_def create_try_def create_except_def flow Let_def
           split: sum.splits prod.splits if_splits bool.splits)

lemma cursor_failure_leaks:
  assumes "fault e = FailCursor"
  shows "get_flags e w =
           (Raise UnboundLocalError, w\<lparr>held := Suc (held w), calls := calls w @ [GetConn]\<rparr>)"
    and "get_flag e n w =
           (Raise UnboundLocalError, w\<lparr>held := Suc (held w), calls := calls w @ [GetConn]\<rparr>)"
    and "delete_flag e n w =
           (Raise UnboundLocalError,
            w\<lparr>pending := None, held := Suc (held w), calls := calls w @ [GetConn, Rollback]\<rparr>)"
  using assms
  by (simp_all add: get_flags_def get_flags_try_def get_flag_def get_flag_try_def read_except_def
        delete_flag_def delete_try_def write_except_def flow Let_def)

lemma delete_flag_execute_failure:
  assumes "fault e = FailExecute"
  shows "delete_flag e n w =
           (Return (Resp 500 (InternalError OperationalError)),
            w\<lparr>pending := None,
               calls := calls w @ [GetConn, Cursor, Execute delete_sql [JStr n],
                                   Rollback, CurClose, PutConn]\<rparr>)"
  using assms
  by (simp add: delete_flag_def delete_try_def write_except_def flow Let_def)

section \<open>The gate in front of the handlers\<close>

text \<open>
  Claim C1, as the code has it. A request whose \<open>Authorization\<close> header is absent or
  empty gets 401 "authorization required" and leaves everything as it was: no call to
  the authentication service, no database access. A header that is present and not
  empty is forwarded to the \<open>/validate\<close> endpoint with a timeout of 3; status 200 lets
  the wrapped handler run on the state after that call, any other status gives 401
  "invalid key", a timeout gives 504 and any other transport failure 503, and in these
  three cases the wrapped handler does not run.
\<close>

theorem require_auth_gate:
  "(auth_header e = None \<or> auth_header e = Some [] \<longrightarrow>
      require_auth e f w = (Return (Resp 401 AuthRequired), w)) \<and>
   (\<forall>h. auth_header e = Some h \<and> h \<noteq> [] \<longrightarrow>
      (auth_reply e = Status 200 \<longrightarrow>
         require_auth e f w = f (log (AuthCall (auth_service_url e @ ''/validate'') h 3) w)) \<and>
      (\<forall>s. auth_reply e = Status s \<and> s \<noteq> 200 \<longrightarrow>
         require_auth e f w =
           (Return (Resp 401 InvalidKey),
            log (AuthCall (auth_service_url e @ ''/validate'') h 3) w)) \<and>
      (auth_reply e = Timeout \<longrightarrow>
         require_auth e f w =
           (Return (Resp 504 AuthTimeout),
            log (AuthCall (auth_service_url e @ ''/validate'') h 3) w)) \<and>
      (auth_reply e = TransportFailure \<longrightarrow>
         require_auth e f w =
           (Return (Resp 503 AuthUnavailable),
            log (AuthCall (auth_service_url e @ ''/validate'') h 3) w)))"
  by (simp add: require_auth_def)

theorem require_auth_gate_witness:
  "require_auth (env0\<lparr>auth_header := None\<rparr>) (get_flags env0) world0
     = (Return (Resp 401 AuthRequired), world0)
   \<and> require_auth env0 (get_flags env0) world0
     = get_flags env0 (log (AuthCall ''http://auth/validate'' ''key'' 3) world0)
   \<and> require_auth (env0\<lparr>auth_reply := Status 403\<rparr>) (get_flags env0) world0
     = (Return (Resp 401 InvalidKey), log (AuthCall ''http://auth/validate'' ''key'' 3) world0)
   \<and> require_auth (env0\<lparr>auth_reply := Timeout\<rparr>) (get_flags env0) world0
     = (Return (Resp 504 AuthTimeout), log (AuthCall ''http://auth/validate'' ''key'' 3) world0)
   \<and> require_auth (env0\<lparr>auth_reply := TransportFailure\<rparr>) (get_flags env0) world0
     = (Return (Resp 503 AuthUnavailable), log (AuthCall ''http://auth/validate'' ''key'' 3) world0)"
  using require_auth_gate [of "env0\<lparr>auth_header := None\<rparr>" "get_flags env0" world0]
    require_auth_gate [of env0 "get_flags env0" world0]
    require_auth_gate [of "env0\<lparr>auth_reply := Status 403\<rparr>" "get_flags env0" world0]
    require_auth_gate [of "env0\<lparr>auth_reply := Timeout\<rparr>" "get_flags env0" world0]
    require_auth_gate [of "env0\<lparr>auth_reply := TransportFailure\<rparr>" "get_flags env0" world0]
  by (simp add: env0_def)

text \<open>
  Claim C1 as the specification words it fails for a header that is present but empty:
  the valid caller of the scenario, sending \<open>Authorization:\<close> with no value, is answered
  401 "authorization required" and nothing is forwarded to the authentication service,
  although that service would have accepted the call.
\<close>

theorem require_auth_empty_header_not_forwarded:
  "auth_header (env0\<lparr>auth_header := Some []\<rparr>) = Some []
   \<and> auth_reply (env0\<lparr>auth_header := Some []\<rparr>) = Status 200
   \<and> fst (require_auth (env0\<lparr>auth_header := Some []\<rparr>) (get_flags env0) world0)
       = Return (Resp 401 AuthRequired)
   \<and> calls (snd (require_auth (env0\<lparr>auth_header := Some []\<rparr>) (get_flags env0) world0)) = []"
  by (simp add: require_auth_def env0_def world0_def)

section \<open>Validation before the database\<close>

text \<open>
  Claim C6, as the code has it. A create request whose body is absent or empty
  (\<open>not data\<close>), or is an object without the \<open>name\<close> field, is answered 400 before any
  database access: nothing at all changes, so no connection is acquired and no row is
  written. The check is for the presence of \<open>name\<close> only.
\<close>

theorem create_flag_requires_name:
  assumes "\<not> truthy data \<or> (\<exists>kvs. data = JObj kvs \<and> map_of kvs ''name'' = None)"
  shows "create_flag e data w = (Return (Resp 400 NameRequired), w)"
  using assms by (auto simp: create_flag_def)

theorem create_flag_requires_name_witness:
  "\<not> truthy JNull
   \<and> create_flag env0 JNull world1 = (Return (Resp 400 NameRequired), world1)
   \<and> map_of [(''description'', JStr ''x'')] ''name'' = None
   \<and> create_flag env0 (JObj [(''description'', JStr ''x'')]) world1
       = (Return (Resp 400 NameRequired), world1)"
  using create_flag_requires_name [of JNull env0 world1]
    create_flag_requires_name [of "JObj [(''description'', JStr ''x'')]" env0 world1]
  by simp

text \<open>
  Claim C6 as the specification words it fails for a name that is present but empty:
  the request \<open>{"name": ""}\<close> passes the validation, reaches the database and is
  answered 201 with the new row.
\<close>

theorem create_flag_empty_name_accepted:
  "fst (create_flag env0 (JObj [(''name'', JStr [])]) world0)
     = Return (Resp 201 (RowBody (Some \<lparr>name = [], description = [], is_enabled = False,
                                         created_at = 7, updated_at = 7\<rparr>)))
   \<and> table (snd (create_flag env0 (JObj [(''name'', JStr [])]) world0))
     = [\<lparr>name = [], description = [], is_enabled = False, created_at = 7, updated_at = 7\<rparr>]
   \<and> calls (snd (create_flag env0 (JObj [(''name'', JStr [])]) world0))
     = [GetConn, Cursor, Execute insert_sql [JStr [], JStr [], JBool False],
        Commit, CurClose, PutConn]"
  by (simp add: create_flag_def create_try_def create_except_def run_sql_insert db_insert_def
        flow view_def Let_def env0_def world0_def)

text \<open>
  The bodies that the validation of \<open>update_flag\<close> does answer with 400: an absent or
  empty body ("body required"), and an object with neither \<open>description\<close> nor
  \<open>is_enabled\<close> ("at least one field"). Both answers come before the database is
  touched: the state after the request is the state before it, so the targeted row is
  unchanged.
\<close>

theorem update_flag_requires_field:
  "(\<not> truthy data \<longrightarrow> update_flag e n data w = (Return (Resp 400 BodyRequired), w))
   \<and> (\<forall>kvs. data = JObj kvs \<and> kvs \<noteq> [] \<and> map_of kvs ''description'' = None
              \<and> map_of kvs ''is_enabled'' = None \<longrightarrow>
         update_flag e n data w = (Return (Resp 400 FieldRequired), w))"
  by (auto simp: update_flag_def collect_dict)

theorem update_flag_requires_field_witness:
  "update_flag env0 ''dark_mode'' JNull world1 = (Return (Resp 400 BodyRequired), world1)
   \<and> update_flag env0 ''dark_mode'' (JObj []) world1 = (Return (Resp 400 BodyRequired), world1)
   \<and> update_flag env0 ''dark_mode'' (JObj [(''colour'', JStr ''red'')]) world1
       = (Return (Resp 400 FieldRequired), world1)"
  using update_flag_requires_field [of JNull env0 "''dark_mode''" world1]
    update_flag_requires_field [of "JObj []" env0 "''dark_mode''" world1]
    update_flag_requires_field [of "JObj [(''colour'', JStr ''red'')]" env0 "''dark_mode''" world1]
  by simp

text \<open>
  Claim C7 asks for a 400 answer to every update request whose body has neither
  recognised field. The code gives it to falsy bodies and to objects, but it never checks
  that the body is an object. For a body that is a number other than 0 or \<open>true\<close>,
  the test \<open>'description' in data\<close> raises \<open>TypeError\<close>; for a string that contains
  \<open>description\<close> or a list that has the element \<open>"is_enabled"\<close> the test succeeds and
  the subscript \<open>data[...]\<close> raises \<open>TypeError\<close>. Both statements stand before the
  \<open>try\<close> block, so the exception escapes the handler: the request ends in an
  unhandled error, not in a 400 validation outcome. The database is not touched.
\<close>

theorem update_flag_non_object_body_raises:
  "update_flag env0 ''dark_mode'' (JInt 5) world1 = (Raise TypeError, world1)
   \<and> update_flag env0 ''dark_mode'' (JBool True) world1 = (Raise TypeError, world1)
   \<and> update_flag env0 ''dark_mode'' (JStr ''description'') world1 = (Raise TypeError, world1)
   \<and> update_flag env0 ''dark_mode'' (JArr [JStr ''is_enabled'']) world1
       = (Raise TypeError, world1)"
  by (simp add: update_flag_def collect_def)

section \<open>Creating a flag\<close>

text \<open>
  Claim C2. For a valid create input (an object with a non-empty string \<open>name\<close>, an
  optional string \<open>description\<close> and an optional boolean \<open>is_enabled\<close>) that meets no
  existing flag of that name and no failure of the pool or the database, create answers
  201 with a row that echoes \<open>name\<close>, \<open>description\<close> and \<open>is_enabled\<close>, where
  \<open>description\<close> is the empty string and \<open>is_enabled\<close> is false when left out, and
  whose \<open>created_at\<close> and \<open>updated_at\<close> are the same instant. That row is what the table
  gains.
\<close>

theorem create_flag_echo:
  assumes "map_of kvs ''name'' = Some (JStr n)" and "n \<noteq> []"
    and "map_of kvs ''description'' = Some (JStr d) \<or> map_of kvs ''description'' = None \<and> d = []"
    and "map_of kvs ''is_enabled'' = Some (JBool b) \<or> map_of kvs ''is_enabled'' = None \<and> b = False"
    and "fault e = NoFault" and "n \<notin> name ` set (view w)"
  shows "\<exists>row. fst (create_flag e (JObj kvs) w) = Return (Resp 201 (RowBody (Some row)))
           \<and> name row = n \<and> description row = d \<and> is_enabled row = b
           \<and> created_at row = updated_at row \<and> created_at row = now e
           \<and> table (snd (create_flag e (JObj kvs) w)) = view w @ [row]"
proof -
  from assms(1) have ne: "kvs \<noteq> []" by auto
  let ?row = "\<lparr>name = n, description = d, is_enabled = b,
               created_at = now e, updated_at = now e\<rparr>"
  have "fst (create_flag e (JObj kvs) w) = Return (Resp 201 (RowBody (Some ?row)))
      \<and> table (snd (create_flag e (JObj kvs) w)) = view w @ [?row]"
    using assms ne
    by (auto simp: create_flag_def create_try_def create_except_def run_sql_insert db_insert_def
          flow Let_def)
  then show ?thesis by (intro exI [of _ ?row]) simp
qed

theorem create_flag_echo_witness:
  "\<exists>row. fst (create_flag env0 (JObj [(''name'', JStr ''dark_mode'')]) world0)
            = Return (Resp 201 (RowBody (Some row)))
         \<and> name row = ''dark_mode'' \<and> description row = [] \<and> is_enabled row = False
         \<and> created_at row = updated_at row \<and> created_at row = 7
         \<and> table (snd (create_flag env0 (JObj [(''name'', JStr ''dark_mode'')]) world0)) = [row]"
  using create_flag_echo [of "[(''name'', JStr ''dark_mode'')]" "''dark_mode''" "[]" False env0 world0]
  by (simp add: env0_def world0_def view_def)

text \<open>
  Claim C3. A well-typed create request whose name is the name of an existing flag, and
  which meets no failure of the pool or the database, is answered 409; the handler rolls
  the transaction back before it closes the cursor and gives the connection back, no
  transaction stays open, and the committed table, with the existing row in it, is what
  it was.
\<close>

theorem create_flag_conflict:
  assumes "map_of kvs ''name'' = Some (JStr n)"
    and "optional_text (map_of kvs ''description'')"
    and "optional_bool (map_of kvs ''is_enabled'')"
    and "fault e = NoFault" and "n \<in> name ` set (view w)"
  shows "fst (create_flag e (JObj kvs) w) = Return (Resp 409 (FlagExists (JStr n)))
       \<and> table (snd (create_flag e (JObj kvs) w)) = table w
       \<and> pending (snd (create_flag e (JObj kvs) w)) = None
       \<and> held (snd (create_flag e (JObj kvs) w)) = held w
       \<and> calls (snd (create_flag e (JObj kvs) w)) =
           calls w @ [GetConn, Cursor,
             Execute insert_sql
               [JStr n,
                case map_of kvs ''description'' of None \<Rightarrow> JStr [] | Some v \<Rightarrow> v,
                case map_of kvs ''is_enabled'' of None \<Rightarrow> JBool False | Some v \<Rightarrow> v],
             Rollback, CurClose, PutConn]"
proof -
  from assms(1) have ne: "kvs \<noteq> []" by auto
  show ?thesis
    using assms(1,4,5) ne optional_textE [OF assms(2)] optional_boolE [OF assms(3)]
    by (auto simp: create_flag_def create_try_def create_except_def run_sql_insert db_insert_def
          flow Let_def)
qed

theorem create_flag_conflict_witness:
  "fst (create_flag env0 (JObj [(''name'', JStr ''dark_mode''), (''is_enabled'', JBool True)]) world1)
     = Return (Resp 409 (FlagExists (JStr ''dark_mode'')))
   \<and> table (snd (create_flag env0
        (JObj [(''name'', JStr ''dark_mode''), (''is_enabled'', JBool True)]) world1)) = [dark_mode]
   \<and> calls (snd (create_flag env0
        (JObj [(''name'', JStr ''dark_mode''), (''is_enabled'', JBool True)]) world1))
     = [GetConn, Cursor,
        Execute insert_sql [JStr ''dark_mode'', JStr [], JBool True],
        Rollback, CurClose, PutConn]"
  using create_flag_conflict
    [of "[(''name'', JStr ''dark_mode''), (''is_enabled'', JBool True)]" "''dark_mode''" env0 world1]
  by (simp add: env0_def world1_def dark_mode_def view_def)

section \<open>Updating and deleting\<close>

text \<open>
  Claim C8. When no call to the pool or the database fails: a delete, or an update with
  a well-typed body that supplies a recognised field, naming a flag that does not exist
  is answered 404 and leaves the committed table as it was; a delete of a flag that
  exists is answered 204 with no body and removes it, and a second delete of the same
  name is answered 404.
\<close>

theorem update_delete_not_found:
  assumes "fault e = NoFault" and "fault e' = NoFault"
  shows "(n \<notin> name ` set (view w) \<longrightarrow>
            fst (delete_flag e n w) = Return (Resp 404 NotFound)
          \<and> table (snd (delete_flag e n w)) = table w
          \<and> (optional_text (map_of kvs ''description'') \<and> optional_bool (map_of kvs ''is_enabled'')
               \<and> (map_of kvs ''description'' \<noteq> None \<or> map_of kvs ''is_enabled'' \<noteq> None) \<longrightarrow>
                 fst (update_flag e n (JObj kvs) w) = Return (Resp 404 NotFound)
               \<and> table (snd (update_flag e n (JObj kvs) w)) = table w))
       \<and> (n \<in> name ` set (view w) \<longrightarrow>
            fst (delete_flag e n w) = Return (Resp 204 NoBody)
          \<and> n \<notin> name ` set (table (snd (delete_flag e n w)))
          \<and> fst (delete_flag e' n (snd (delete_flag e n w))) = Return (Resp 404 NotFound))"
proof (intro conjI impI)
  assume a: "n \<notin> name ` set (view w)"
  show "fst (delete_flag e n w) = Return (Resp 404 NotFound)"
    by (simp add: delete_flag_absent [OF assms(1) a])
  show "table (snd (delete_flag e n w)) = table w"
    by (simp add: delete_flag_absent [OF assms(1) a])
  assume b: "optional_text (map_of kvs ''description'') \<and> optional_bool (map_of kvs ''is_enabled'')
               \<and> (map_of kvs ''description'' \<noteq> None \<or> map_of kvs ''is_enabled'' \<noteq> None)"
  show "fst (update_flag e n (JObj kvs) w) = Return (Resp 404 NotFound)"
    using update_flag_absent [OF assms(1) a] b by blast
  show "table (snd (update_flag e n (JObj kvs) w)) = table w"
    using update_flag_absent [OF assms(1) a] b by blast
next
  assume p: "n \<in> name ` set (view w)"
  let ?w' = "snd (delete_flag e n w)"
  show "fst (delete_flag e n w) = Return (Resp 204 NoBody)"
    by (simp add: delete_flag_present [OF assms(1) p])
  have gone: "n \<notin> name ` set (view ?w')"
    by (auto simp: delete_flag_present [OF assms(1) p])
  show "n \<notin> name ` set (table ?w')"
    by (auto simp: delete_flag_present [OF assms(1) p])
  show "fst (delete_flag e' n ?w') = Return (Resp 404 NotFound)"
    by (simp add: delete_flag_absent [OF assms(2) gone])
qed

theorem update_delete_not_found_witness:
  "fst (delete_flag env0 ''ghost'' world1) = Return (Resp 404 NotFound)
   \<and> table (snd (delete_flag env0 ''ghost'' world1)) = [dark_mode]
   \<and> fst (update_flag env0 ''ghost'' (JObj [(''is_enabled'', JBool True)]) world1)
       = Return (Resp 404 NotFound)
   \<and> table (snd (update_flag env0 ''ghost'' (JObj [(''is_enabled'', JBool True)]) world1))
       = [dark_mode]
   \<and> fst (delete_flag env0 ''dark_mode'' world1) = Return (Resp 204 NoBody)
   \<and> fst (delete_flag env0 ''dark_mode'' (snd (delete_flag env0 ''dark_mode'' world1)))
       = Return (Resp 404 NotFound)"
  using update_delete_not_found
      [where e = env0 and e' = env0 and n = "''ghost''" and w = world1
         and kvs = "[(''is_enabled'', JBool True)]"]
    update_delete_not_found
      [where e = env0 and e' = env0 and n = "''dark_mode''" and w = world1 and kvs = "[]"]
  by (simp add: env0_def world1_def dark_mode_def view_def)

text \<open>
  Claim C9. An update that is answered 200 had an object as its body, and it changes
  the rows the request found in this way only: the table keeps its length and order;
  every row keeps its \<open>name\<close> and its \<open>created_at\<close>; a field that the body does not
  supply keeps its value in every row; a row of another name is unchanged altogether;
  and in a row of the name given, \<open>updated_at\<close> becomes the current time and each
  supplied field takes the supplied value.
\<close>

theorem update_flag_frame:
  assumes "update_flag e n data w = (Return (Resp 200 b), w')"
  shows "\<exists>kvs. data = JObj kvs
     \<and> length (table w') = length (view w)
     \<and> (\<forall>i<length (view w).
           name (table w' ! i) = name (view w ! i)
         \<and> created_at (table w' ! i) = created_at (view w ! i)
         \<and> (map_of kvs ''description'' = None \<longrightarrow>
              description (table w' ! i) = description (view w ! i))
         \<and> (map_of kvs ''is_enabled'' = None \<longrightarrow>
              is_enabled (table w' ! i) = is_enabled (view w ! i))
         \<and> (name (view w ! i) \<noteq> n \<longrightarrow> table w' ! i = view w ! i)
         \<and> (name (view w ! i) = n \<longrightarrow>
              updated_at (table w' ! i) = now e
            \<and> (\<forall>v. map_of kvs ''description'' = Some v \<longrightarrow>
                     v = JStr (description (table w' ! i)))
            \<and> (\<forall>v. map_of kvs ''is_enabled'' = Some v \<longrightarrow>
                     v = JBool (is_enabled (table w' ! i)))))"
proof -
  from update_ok_dict [OF assms] obtain kvs where d: "data = JObj kvs" by blast
  note t = update_flag_table [OF assms [unfolded d]]
  from t have td: "optional_text (map_of kvs ''description'')"
    and tb: "optional_bool (map_of kvs ''is_enabled'')" by simp_all
  have "length (table w') = length (view w)
     \<and> (\<forall>i<length (view w).
           name (table w' ! i) = name (view w ! i)
         \<and> created_at (table w' ! i) = created_at (view w ! i)
         \<and> (map_of kvs ''description'' = None \<longrightarrow>
              description (table w' ! i) = description (view w ! i))
         \<and> (map_of kvs ''is_enabled'' = None \<longrightarrow>
              is_enabled (table w' ! i) = is_enabled (view w ! i))
         \<and> (name (view w ! i) \<noteq> n \<longrightarrow> table w' ! i = view w ! i)
         \<and> (name (view w ! i) = n \<longrightarrow>
              updated_at (table w' ! i) = now e
            \<and> (\<forall>v. map_of kvs ''description'' = Some v \<longrightarrow>
                     v = JStr (description (table w' ! i)))
            \<and> (\<forall>v. map_of kvs ''is_enabled'' = Some v \<longrightarrow>
                     v = JBool (is_enabled (table w' ! i)))))"
    using t optional_textE [OF td] optional_boolE [OF tb] by auto
  with d show ?thesis by blast
qed

theorem update_flag_frame_witness:
  "fst (update_flag (env0\<lparr>now := 9\<rparr>) ''dark_mode'' (JObj [(''is_enabled'', JBool True)]) world1)
     = Return (Resp 200 (RowBody (Some (dark_mode\<lparr>is_enabled := True, updated_at := 9\<rparr>))))
   \<and> table (snd (update_flag (env0\<lparr>now := 9\<rparr>) ''dark_mode''
                   (JObj [(''is_enabled'', JBool True)]) world1))
     = [\<lparr>name = ''dark_mode'', description = [], is_enabled = True,
          created_at = 7, updated_at = 9\<rparr>]"
proof -
  let ?w' = "world1\<lparr>table := [dark_mode\<lparr>is_enabled := True, updated_at := 9\<rparr>],
               calls := [GetConn, Cursor,
                         Execute (update_sql [''is_enabled = %s'']) [JBool True, JStr ''dark_mode''],
                         Commit, CurClose, PutConn]\<rparr>"
  have h: "update_flag (env0\<lparr>now := 9\<rparr>) ''dark_mode'' (JObj [(''is_enabled'', JBool True)]) world1
     = (Return (Resp 200 (RowBody (Some (dark_mode\<lparr>is_enabled := True, updated_at := 9\<rparr>)))), ?w')"
    by (simp add: update_flag_def collect_dict update_try_def write_except_def run_sql_simps
          db_update_def assign_def flow view_def Let_def env0_def world1_def dark_mode_def)
  from update_flag_frame [OF h]
  have "length (table ?w') = length (view world1)
      \<and> name (table ?w' ! 0) = name (view world1 ! 0)
      \<and> created_at (table ?w' ! 0) = created_at (view world1 ! 0)
      \<and> description (table ?w' ! 0) = description (view world1 ! 0)
      \<and> updated_at (table ?w' ! 0) = 9
      \<and> is_enabled (table ?w' ! 0) = True"
    by (auto simp: world1_def view_def dark_mode_def env0_def)
  then show ?thesis
    unfolding h by (simp add: world1_def view_def dark_mode_def)
qed

text \<open>
  Claim C10. For an update whose body is an object with at least one of \<open>description\<close>
  and \<open>is_enabled\<close>, the other keys of the body are ignored: the handler does exactly
  what it does for the body with those keys removed, it does not answer 400, and every
  statement it sends to the database is one of the three \<open>UPDATE\<close> statements over the
  columns \<open>description\<close>, \<open>is_enabled\<close> and \<open>updated_at\<close>.
\<close>

theorem update_flag_ignores_unknown_keys:
  assumes "map_of kvs ''description'' \<noteq> None \<or> map_of kvs ''is_enabled'' \<noteq> None"
  shows "update_flag e n (JObj kvs) w =
           update_flag e n
             (JObj (filter (\<lambda>kv. fst kv = ''description'' \<or> fst kv = ''is_enabled'') kvs)) w
       \<and> (\<forall>x. fst (update_flag e n (JObj kvs) w) \<noteq> Return (Resp 400 x))
       \<and> (\<exists>new. calls (snd (update_flag e n (JObj kvs) w)) = calls w @ new
             \<and> (\<forall>sql ps. Execute sql ps \<in> set new \<longrightarrow>
                   sql = ''UPDATE flags SET description = %s, updated_at = NOW() WHERE name = %s RETURNING *''
                 \<or> sql = ''UPDATE flags SET is_enabled = %s, updated_at = NOW() WHERE name = %s RETURNING *''
                 \<or> sql = ''UPDATE flags SET description = %s, is_enabled = %s, updated_at = NOW() WHERE name = %s RETURNING *''))"
proof -
  from update_flag_runs [OF assms, of e n w] obtain fs vals where
    u: "update_flag e n (JObj kvs) w
          = try_finally (update_try e (update_sql fs) (vals @ [JStr n]) w) write_except"
    and fs: "fs = [''description = %s''] \<or> fs = [''is_enabled = %s'']
           \<or> fs = [''description = %s'', ''is_enabled = %s'']"
    by blast
  from fs have q:
    "update_sql fs = ''UPDATE flags SET description = %s, updated_at = NOW() WHERE name = %s RETURNING *''
     \<or> update_sql fs = ''UPDATE flags SET is_enabled = %s, updated_at = NOW() WHERE name = %s RETURNING *''
     \<or> update_sql fs = ''UPDATE flags SET description = %s, is_enabled = %s, updated_at = NOW() WHERE name = %s RETURNING *''"
    by (auto simp: update_sql_def)
  have a: "\<forall>x. fst (update_flag e n (JObj kvs) w) \<noteq> Return (Resp 400 x)"
    unfolding u by (simp add: try_not_400)
  from update_try_calls [of e "update_sql fs" "vals @ [JStr n]" w] q
  have b: "\<exists>new. calls (snd (update_flag e n (JObj kvs) w)) = calls w @ new
             \<and> (\<forall>sql ps. Execute sql ps \<in> set new \<longrightarrow>
                   sql = ''UPDATE flags SET description = %s, updated_at = NOW() WHERE name = %s RETURNING *''
                 \<or> sql = ''UPDATE flags SET is_enabled = %s, updated_at = NOW() WHERE name = %s RETURNING *''
                 \<or> sql = ''UPDATE flags SET description = %s, is_enabled = %s, updated_at = NOW() WHERE name = %s RETURNING *'')"
    unfolding u by metis
  from update_flag_filter [OF assms] a b show ?thesis by blast
qed

theorem update_flag_ignores_unknown_keys_witness:
  "update_flag env0 ''dark_mode''
      (JObj [(''colour'', JStr ''red''), (''is_enabled'', JBool True), (''name'', JStr ''x'')]) world1
     = update_flag env0 ''dark_mode'' (JObj [(''is_enabled'', JBool True)]) world1
   \<and> fst (update_flag env0 ''dark_mode''
      (JObj [(''colour'', JStr ''red''), (''is_enabled'', JBool True), (''name'', JStr ''x'')]) world1)
     \<noteq> Return (Resp 400 FieldRequired)"
  using update_flag_ignores_unknown_keys
    [of "[(''colour'', JStr ''red''), (''is_enabled'', JBool True), (''name'', JStr ''x'')]"
        env0 "''dark_mode''" world1]
  by auto

section \<open>Transactions and connections\<close>

text \<open>
  Claim C4 asks that a rejected outcome which touched the connection, the not-found
  paths of update and delete among them, is rolled back before the connection is
  released. The code does not do that: an update and a delete of a name that does not
  exist run their statement, return 404 from inside the \<open>try\<close> block, and the \<open>finally\<close>
  block closes the cursor and gives the connection back with neither a commit nor a
  rollback in between. (The other paths do what the claim says: a success commits, see
  \<open>delete_flag_present\<close>; the conflict of create and every caught exception roll back,
  see \<open>delete_flag_execute_failure\<close>.)
\<close>

theorem not_found_paths_skip_rollback:
  "update_flag env0 ''ghost'' (JObj [(''is_enabled'', JBool True)]) world1
     = (Return (Resp 404 NotFound),
        world1\<lparr>calls := [GetConn, Cursor,
                          Execute (update_sql [''is_enabled = %s'']) [JBool True, JStr ''ghost''],
                          CurClose, PutConn]\<rparr>)
   \<and> delete_flag env0 ''ghost'' world1
     = (Return (Resp 404 NotFound),
        world1\<lparr>calls := [GetConn, Cursor, Execute delete_sql [JStr ''ghost''],
                          CurClose, PutConn]\<rparr>)"
  by (simp add: update_flag_def collect_dict update_try_def delete_flag_def delete_try_def
        write_except_def run_sql_simps db_update_def db_delete_def assign_def flow view_def Let_def
        env0_def world1_def dark_mode_def)

text \<open>
  Claim C5 asks that the connection a request acquires is released on every exit path,
  also when the creation of the cursor fails. Only \<open>create_flag\<close> sets \<open>conn\<close> and \<open>cur\<close>
  to \<open>None\<close> before its \<open>try\<close> block. In the other four handlers a failure of
  \<open>conn.cursor()\<close> leaves \<open>cur\<close> unassigned, \<open>if cur:\<close> in the \<open>finally\<close> block raises
  \<open>UnboundLocalError\<close>, and \<open>pool.putconn(conn)\<close> is never reached: the request ends
  with one connection more taken from the pool than before. The same failure in
  \<open>create_flag\<close> is answered 500 with the connection given back.
\<close>

theorem cursor_failure_leaks_connection:
  "get_flags (env0\<lparr>fault := FailCursor\<rparr>) world0
     = (Raise UnboundLocalError, world0\<lparr>held := 1, calls := [GetConn]\<rparr>)
   \<and> get_flag (env0\<lparr>fault := FailCursor\<rparr>) ''dark_mode'' world0
     = (Raise UnboundLocalError, world0\<lparr>held := 1, calls := [GetConn]\<rparr>)
   \<and> update_flag (env0\<lparr>fault := FailCursor\<rparr>) ''dark_mode''
        (JObj [(''is_enabled'', JBool True)]) world0
     = (Raise UnboundLocalError, world0\<lparr>held := 1, calls := [GetConn, Rollback]\<rparr>)
   \<and> delete_flag (env0\<lparr>fault := FailCursor\<rparr>) ''dark_mode'' world0
     = (Raise UnboundLocalError, world0\<lparr>held := 1, calls := [GetConn, Rollback]\<rparr>)
   \<and> create_flag (env0\<lparr>fault := FailCursor\<rparr>) (JObj [(''name'', JStr ''dark_mode'')]) world0
     = (Return (Resp 500 (InternalError OperationalError)),
        world0\<lparr>held := 0, calls := [GetConn, Rollback, PutConn]\<rparr>)"
  by (simp add: get_flags_def get_flags_try_def get_flag_def get_flag_try_def read_except_def
        update_flag_def collect_dict update_try_def delete_flag_def delete_try_def write_except_def
        create_flag_def create_try_def create_except_def
        flow view_def Let_def env0_def world0_def)

end
